theory Spec2Isabelle
  imports Main
begin

section \<open>The tool dispatcher of \<open>LinearServer.setupRequestHandlers\<close>\<close>

text \<open>
  The model follows the second (session-indexed) \<open>index.ts\<close>: the class \<open>LinearServer\<close>
  with its field \<open>transports\<close>, the two request handlers registered by
  \<open>setupRequestHandlers\<close> and the two \<open>/mcp\<close> routes registered by \<open>run\<close>.

  JavaScript values that the code only passes on (tool descriptors, call arguments,
  handler results, request bodies) are type parameters. Everything that belongs to the
  MCP SDK, to express or to node (the transport's \<open>handleRequest\<close>, \<open>server.connect\<close>,
  \<open>isInitializeRequest\<close>, \<open>randomUUID\<close>, the handler objects) is a parameter of the
  function that calls it. Two things of the SDK are written out where a property needs
  them: the message that its \<open>McpError\<close> builds, and the behaviour of its transport
  as the specification describes the Transport Adapter.
\<close>

subsection \<open>Strings\<close>

text \<open>\<open>s.startsWith(p)\<close>.\<close>

definition startsWith :: "string \<Rightarrow> string \<Rightarrow> bool" where
  "startsWith s p = (take (length p) s = p)"

subsection \<open>Thrown values and protocol errors\<close>

text \<open>The kinds of \<open>ErrorCode\<close> that the specification names.\<close>

datatype ErrorCode = MethodNotFound | InvalidRequest | InternalError

text \<open>
  A value caught by \<open>catch (error)\<close>. \<open>ErrorObj c m\<close> is an instance of \<open>Error\<close> whose
  \<open>message\<close> property is \<open>m\<close>; \<open>c\<close> is its protocol kind when it is an \<open>McpError\<close> and
  \<open>None\<close> for a plain \<open>Error\<close>. \<open>NonError v\<close> is any thrown value that is not an instance
  of \<open>Error\<close>.
\<close>

datatype thrown = ErrorObj "ErrorCode option" string | NonError string

text \<open>
  What the \<open>tools/call\<close> handler throws: \<open>McpError c m\<close> is
  \<open>throw new McpError(c, m)\<close>, and \<open>Rethrown e\<close> is \<open>throw error\<close>, the caught value
  itself.
\<close>

datatype raised = McpError ErrorCode string | Rethrown thrown

text \<open>The protocol kind an outgoing exception carries; \<open>None\<close> for an untyped one.\<close>

fun kind_of :: "raised \<Rightarrow> ErrorCode option" where
  "kind_of (McpError c m) = Some c"
| "kind_of (Rethrown (ErrorObj c m)) = c"
| "kind_of (Rethrown (NonError v)) = None"

text \<open>
  The \<open>message\<close> property of \<open>new McpError(code, message)\<close>. The class and the enum
  \<open>ErrorCode\<close> belong to the SDK (\<open>@modelcontextprotocol/sdk/types.js\<close>), not to the
  repository: its constructor calls \<open>super(`MCP error ${code}: ${message}`)\<close>, and the
  enum gives \<open>InvalidRequest\<close>, \<open>MethodNotFound\<close> and \<open>InternalError\<close> the numbers
  -32600, -32601 and -32603.
\<close>

fun code_number :: "ErrorCode \<Rightarrow> string" where
  "code_number InvalidRequest = ''-32600''"
| "code_number MethodNotFound = ''-32601''"
| "code_number InternalError = ''-32603''"

definition McpError_message :: "ErrorCode \<Rightarrow> string \<Rightarrow> string" where
  "McpError_message code message = ''MCP error '' @ code_number code @ '': '' @ message"

text \<open>The \<open>message\<close> property of an outgoing exception, when it is an \<open>Error\<close>.\<close>

fun message_of :: "raised \<Rightarrow> string option" where
  "message_of (McpError c m) = Some (McpError_message c m)"
| "message_of (Rethrown (ErrorObj c m)) = Some m"
| "message_of (Rethrown (NonError v)) = None"

text \<open>\<open>error instanceof Error && error.message.startsWith('No handler found')\<close>.\<close>

fun no_handler_found :: "thrown \<Rightarrow> bool" where
  "no_handler_found (ErrorObj c m) = startsWith m ''No handler found''"
| "no_handler_found (NonError v) = False"

text \<open>The body of the \<open>catch\<close> clause of the \<open>tools/call\<close> handler.\<close>

definition catch_clause :: "string \<Rightarrow> thrown \<Rightarrow> raised" where
  "catch_clause name error =
     (if no_handler_found error
      then McpError MethodNotFound (''Unknown tool: '' @ name)
      else Rethrown error)"

subsection \<open>The handler factory\<close>

text \<open>The \<open>DispatchEntry\<close> of the specification.\<close>

record DispatchEntry =
  toolName :: string
  handlerRef :: nat
  methodName :: string

text \<open>
  Modelled from the spec: \<open>HandlerFactory.getHandlerForTool\<close>, whose file
  \<open>core/handlers/handler.factory.ts\<close> is not among the sources. The specification (4.3)
  makes resolution a pure lookup of the tool name in the static registry that either
  yields the entry or fails. Neither the specification nor \<open>index.ts\<close> fixes the value
  that a failed lookup throws, so it is the parameter \<open>failure\<close>, a function of the
  requested name.
\<close>

definition getHandlerForTool ::
  "DispatchEntry list \<Rightarrow> (string \<Rightarrow> thrown) \<Rightarrow> string \<Rightarrow> thrown + (nat \<times> string)" where
  "getHandlerForTool registry failure name =
     (case find (\<lambda>e. toolName e = name) registry of
        None \<Rightarrow> Inl (failure name)
      | Some e \<Rightarrow> Inr (handlerRef e, methodName e))"

subsection \<open>The registered request handlers\<close>

text \<open>
  \<open>Object.values(toolSchemas)\<close>. The object \<open>toolSchemas\<close> of \<open>core/types/tool.types.ts\<close>
  is a parameter: the list of its own properties (tool name and descriptor) in property
  order.
\<close>

definition Object_values :: "(string \<times> 'v) list \<Rightarrow> 'v list" where
  "Object_values obj = map snd obj"

text \<open>The handler of \<open>ListToolsRequestSchema\<close>: \<open>async () => ({ tools: ... })\<close>.\<close>

definition ListTools :: "(string \<times> 'tool) list \<Rightarrow> 'tool list" where
  "ListTools toolSchemas = Object_values toolSchemas"

text \<open>
  The handler of \<open>CallToolRequestSchema\<close>. \<open>invoke handler method arguments\<close> stands for
  \<open>await (handler as any)[method](request.params.arguments)\<close>: it returns the result or
  the value thrown. The second component of the result lists the handler methods that
  were invoked, with their arguments.
\<close>

definition CallTool ::
  "DispatchEntry list \<Rightarrow> (string \<Rightarrow> thrown) \<Rightarrow> (nat \<Rightarrow> string \<Rightarrow> 'a \<Rightarrow> thrown + 'r)
     \<Rightarrow> string \<Rightarrow> 'a \<Rightarrow> (raised + 'r) \<times> (nat \<times> string \<times> 'a) list" where
  "CallTool registry failure invoke name arguments =
     (case getHandlerForTool registry failure name of
        Inl error \<Rightarrow> (Inl (catch_clause name error), [])
      | Inr (handler, method) \<Rightarrow>
          (case invoke handler method arguments of
             Inl error \<Rightarrow> (Inl (catch_clause name error), [(handler, method, arguments)])
           | Inr result \<Rightarrow> (Inr result, [(handler, method, arguments)])))"

text \<open>The requests that \<open>setupRequestHandlers\<close> registers a handler for, and their answers.\<close>

datatype 'a request = ListToolsRequest | CallToolRequest string 'a

datatype ('tool, 'r) answer = Tools "'tool list" | CallResult 'r

definition setupRequestHandlers ::
  "(string \<times> 'tool) list \<Rightarrow> DispatchEntry list \<Rightarrow> (string \<Rightarrow> thrown)
     \<Rightarrow> (nat \<Rightarrow> string \<Rightarrow> 'a \<Rightarrow> thrown + 'r)
     \<Rightarrow> 'a request \<Rightarrow> (raised + ('tool, 'r) answer) \<times> (nat \<times> string \<times> 'a) list" where
  "setupRequestHandlers toolSchemas registry failure invoke request =
     (case request of
        ListToolsRequest \<Rightarrow> (Inr (Tools (ListTools toolSchemas)), [])
      | CallToolRequest name arguments \<Rightarrow>
          (case CallTool registry failure invoke name arguments of
             (Inl e, calls) \<Rightarrow> (Inl e, calls)
           | (Inr result, calls) \<Rightarrow> (Inr (CallResult result), calls)))"

section \<open>The session registry and the \<open>/mcp\<close> routes of \<open>LinearServer.run\<close>\<close>

subsection \<open>Property lookup on the object \<open>transports\<close>\<close>

text \<open>
  The field \<open>transports\<close> is initialised with the object literal \<open>{}\<close>, so its prototype is
  \<open>Object.prototype\<close>. Its own properties are the stored sessions, a finite map from the
  session id to the identity of the transport object. Reading \<open>this.transports[k]\<close>
  yields the own property \<open>k\<close> when there is one; otherwise the lookup continues in the
  prototype, where the names below are defined (as functions, or for \<open>__proto__\<close> as the
  prototype object itself); otherwise it yields \<open>undefined\<close>.
\<close>

datatype js_value = Undefined | Transport nat | Inherited string

definition Object_prototype :: "string list" where
  "Object_prototype =
     [''constructor'', ''__proto__'', ''hasOwnProperty'', ''isPrototypeOf'',
      ''propertyIsEnumerable'', ''toLocaleString'', ''toString'', ''valueOf'',
      ''__defineGetter__'', ''__defineSetter__'', ''__lookupGetter__'', ''__lookupSetter__'']"

definition get_property :: "(string \<rightharpoonup> nat) \<Rightarrow> string \<Rightarrow> js_value" where
  "get_property own k =
     (case own k of
        Some transport \<Rightarrow> Transport transport
      | None \<Rightarrow> if k \<in> set Object_prototype then Inherited k else Undefined)"

text \<open>Truthiness: objects and functions are truthy, \<open>undefined\<close> is not.\<close>

fun truthy :: "js_value \<Rightarrow> bool" where
  "truthy Undefined = False"
| "truthy (Transport transport) = True"
| "truthy (Inherited k) = True"

text \<open>
  The header \<open>req.headers['mcp-session-id'] as string | undefined\<close>: it is truthy when it is
  present and not the empty string.
\<close>

fun truthy_string :: "string option \<Rightarrow> bool" where
  "truthy_string None = False"
| "truthy_string (Some k) = (k \<noteq> [])"

text \<open>
  \<open>this.transports[sessionId]\<close> for the header value. Both routes read it only behind a
  test that \<open>sessionId\<close> is truthy.
\<close>

fun transports_at :: "(string \<rightharpoonup> nat) \<Rightarrow> string option \<Rightarrow> js_value" where
  "transports_at own None = Undefined"
| "transports_at own (Some k) = get_property own k"

subsection \<open>State, requests, responses\<close>

text \<open>
  \<open>transports\<close> is the field of \<open>LinearServer\<close>. \<open>allocated\<close> counts the transport objects
  constructed so far; the next \<open>new StreamableHTTPServerTransport\<close> has this number as its
  identity. \<open>closed\<close> holds the transports whose connection has ended; it is state of the
  transports, which \<open>index.ts\<close> never reads.
\<close>

record state =
  transports :: "string \<rightharpoonup> nat"
  allocated :: nat
  closed :: "nat set"

definition initial :: state where
  "initial = \<lparr>transports = Map.empty, allocated = 0, closed = {}\<rparr>"

record 'b Request =
  mcp_session_id :: "string option"
  body :: 'b

text \<open>
  A response body written by \<open>index.ts\<close>: \<open>JsonRpcError v c m i\<close> is
  \<open>{jsonrpc: v, error: {code: c, message: m}, id: i}\<close> with \<open>None\<close> for \<open>null\<close>;
  \<open>PlainText\<close> is the argument of \<open>res.send\<close>.
\<close>

datatype response_body = JsonRpcError string int string "int option" | PlainText string

text \<open>
  What a route does, in order: it constructs a transport, calls
  \<open>this.server.connect(transport)\<close>, calls \<open>transport.handleRequest(req, res, ...)\<close>, the
  callback \<open>onsessioninitialized\<close> assigns \<open>this.transports[sessionId] = transport\<close>, the
  route writes a response with a status, or an exception leaves the route uncaught.
\<close>

datatype event =
    Constructed nat
  | Connect nat
  | HandleRequest nat
  | SessionInitialized string nat
  | Respond nat response_body
  | Unhandled

text \<open>
  How one call of the SDK's \<open>transport.handleRequest\<close> ends: whether it called
  \<open>onsessioninitialized\<close>, and with which id from \<open>sessionIdGenerator\<close> (that is, from
  \<open>randomUUID()\<close>); whether its promise rejects; and the value of \<open>res.headersSent\<close> then.
\<close>

record handled =
  sessionInitialized :: "string option"
  rejects :: bool
  headersSent :: bool

text \<open>What surrounds one POST: whether \<open>this.server.connect\<close> rejects, and the above.\<close>

record environment =
  connect_rejects :: bool
  handling :: handled

text \<open>How a block of statements ends; \<open>Threw hs\<close> carries \<open>res.headersSent\<close> at the throw.\<close>

datatype completion = Returned | Threw bool

subsection \<open>The routes\<close>

text \<open>
  \<open>await transport.handleRequest(...)\<close> on a transport object. The callback given to the
  constructor closes over the variable \<open>transport\<close> of the request that constructed the
  object, so it stores that same object. The assignment creates the own property
  \<open>sessionId\<close> or overwrites it; the ids assigned are results of \<open>randomUUID()\<close>.
\<close>

definition handleRequest :: "state \<Rightarrow> nat \<Rightarrow> handled \<Rightarrow> state \<times> event list \<times> completion" where
  "handleRequest s transport h =
     ((case sessionInitialized h of
         None \<Rightarrow> s
       | Some sessionId \<Rightarrow> s\<lparr>transports := (transports s)(sessionId \<mapsto> transport)\<rparr>),
      HandleRequest transport #
        (case sessionInitialized h of
           None \<Rightarrow> []
         | Some sessionId \<Rightarrow> [SessionInitialized sessionId transport]),
      (if rejects h then Threw (headersSent h) else Returned))"

text \<open>
  The \<open>try\<close> block of \<open>app.post('/mcp', ...)\<close>. When the value read from \<open>transports\<close> is
  not a transport object, it has no method \<open>handleRequest\<close> and the call throws a
  \<open>TypeError\<close>. Neither that call nor \<open>this.server.connect\<close> is given \<open>res\<close>, so no header
  has been sent when they throw.
\<close>

definition try_block ::
  "('b \<Rightarrow> bool) \<Rightarrow> state \<Rightarrow> 'b Request \<Rightarrow> environment \<Rightarrow> state \<times> event list \<times> completion" where
  "try_block isInitializeRequest s req env =
     (let sessionId = mcp_session_id req in
      if truthy_string sessionId \<and> truthy (transports_at (transports s) sessionId) then
        (case transports_at (transports s) sessionId of
           Transport transport \<Rightarrow> handleRequest s transport (handling env)
         | Inherited k \<Rightarrow> (s, [], Threw False)
         | Undefined \<Rightarrow> (s, [], Threw False))
      else if \<not> truthy_string sessionId \<and> isInitializeRequest (body req) then
        (let transport = allocated s; s1 = s\<lparr>allocated := Suc transport\<rparr> in
         if connect_rejects env
         then (s1, [Constructed transport, Connect transport], Threw False)
         else (case handleRequest s1 transport (handling env) of
                 (s2, ev, c) \<Rightarrow> (s2, [Constructed transport, Connect transport] @ ev, c)))
      else
        (s, [Respond 400 (JsonRpcError ''2.0'' (- 32000)
               ''Bad Request: No valid session ID provided'' None)], Returned))"

text \<open>The \<open>catch\<close> block of \<open>app.post('/mcp', ...)\<close>.\<close>

definition catch_block :: "bool \<Rightarrow> event list" where
  "catch_block sent =
     (if \<not> sent
      then [Respond 500 (JsonRpcError ''2.0'' (- 32603) ''Internal server error'' None)]
      else [])"

definition post_mcp ::
  "('b \<Rightarrow> bool) \<Rightarrow> state \<Rightarrow> 'b Request \<Rightarrow> environment \<Rightarrow> state \<times> event list" where
  "post_mcp isInitializeRequest s req env =
     (case try_block isInitializeRequest s req env of
        (s', ev, Returned) \<Rightarrow> (s', ev)
      | (s', ev, Threw sent) \<Rightarrow> (s', ev @ catch_block sent))"

text \<open>
  \<open>app.get('/mcp', ...)\<close>. The test \<open>!sessionId || !this.transports[sessionId]\<close> reads the
  registry only when \<open>sessionId\<close> is truthy. The route has no \<open>try\<close>: an exception
  leaves it.
\<close>

definition get_mcp :: "state \<Rightarrow> 'b Request \<Rightarrow> handled \<Rightarrow> state \<times> event list" where
  "get_mcp s req h =
     (let sessionId = mcp_session_id req in
      if (if truthy_string sessionId then \<not> truthy (transports_at (transports s) sessionId)
          else True)
      then (s, [Respond 400 (PlainText ''Invalid or missing session ID'')])
      else
        (case transports_at (transports s) sessionId of
           Transport transport \<Rightarrow>
             (case handleRequest s transport h of
                (s', ev, Returned) \<Rightarrow> (s', ev)
              | (s', ev, Threw sent) \<Rightarrow> (s', ev @ [Unhandled]))
         | Inherited k \<Rightarrow> (s, [Unhandled])
         | Undefined \<Rightarrow> (s, [Unhandled])))"

text \<open>
  The connection of a transport ends. \<open>index.ts\<close> assigns no \<open>onclose\<close> handler and holds no
  statement that deletes a property of \<open>transports\<close>, so only the transport's own state
  changes.
\<close>

definition transport_closes :: "state \<Rightarrow> nat \<Rightarrow> state \<times> event list" where
  "transport_closes s transport = (s\<lparr>closed := insert transport (closed s)\<rparr>, [])"

subsection \<open>Runs of the server\<close>

datatype 'b input = POST "'b Request" environment | GET "'b Request" handled | CLOSE nat

fun step :: "('b \<Rightarrow> bool) \<Rightarrow> state \<Rightarrow> 'b input \<Rightarrow> state \<times> event list" where
  "step isInitializeRequest s (POST req env) = post_mcp isInitializeRequest s req env"
| "step isInitializeRequest s (GET req h) = get_mcp s req h"
| "step isInitializeRequest s (CLOSE transport) = transport_closes s transport"

fun run :: "('b \<Rightarrow> bool) \<Rightarrow> state \<Rightarrow> 'b input list \<Rightarrow> state \<times> event list" where
  "run isInitializeRequest s [] = (s, [])"
| "run isInitializeRequest s (i # inputs) =
     (case step isInitializeRequest s i of
        (s1, ev1) \<Rightarrow>
          (case run isInitializeRequest s1 inputs of
             (s2, ev2) \<Rightarrow> (s2, ev1 @ ev2)))"

text \<open>The transports whose \<open>handleRequest\<close> was called, and the responses written.\<close>

fun handled_by :: "event list \<Rightarrow> nat list" where
  "handled_by [] = []"
| "handled_by (HandleRequest transport # ev) = transport # handled_by ev"
| "handled_by (e # ev) = handled_by ev"

fun responses :: "event list \<Rightarrow> (nat \<times> response_body) list" where
  "responses [] = []"
| "responses (Respond status b # ev) = (status, b) # responses ev"
| "responses (e # ev) = responses ev"

fun constructed :: "event list \<Rightarrow> nat list" where
  "constructed [] = []"
| "constructed (Constructed transport # ev) = transport # constructed ev"
| "constructed (e # ev) = constructed ev"

text \<open>
  The contract of \<open>randomUUID\<close> from \<open>node:crypto\<close>, the \<open>sessionIdGenerator\<close> of every
  transport: a string of 36 characters that was not issued before (the specification,
  4.1, treats a collision as negligible and not as a handled error).
\<close>

fun generated :: "'b input \<Rightarrow> string option" where
  "generated (POST req env) = sessionInitialized (handling env)"
| "generated (GET req h) = sessionInitialized h"
| "generated (CLOSE transport) = None"

definition randomUUID_contract :: "state \<Rightarrow> 'b input \<Rightarrow> bool" where
  "randomUUID_contract s i =
     (case generated i of
        None \<Rightarrow> True
      | Some sessionId \<Rightarrow> length sessionId = 36 \<and> transports s sessionId = None)"

fun fresh_ids :: "('b \<Rightarrow> bool) \<Rightarrow> state \<Rightarrow> 'b input list \<Rightarrow> bool" where
  "fresh_ids isInitializeRequest s [] = True"
| "fresh_ids isInitializeRequest s (i # inputs) =
     (randomUUID_contract s i \<and>
      fresh_ids isInitializeRequest (fst (step isInitializeRequest s i)) inputs)"

text \<open>The transports that a run assigned to the property \<open>k\<close> of \<open>transports\<close>.\<close>

fun stored_under :: "string \<Rightarrow> event list \<Rightarrow> nat list" where
  "stored_under k [] = []"
| "stored_under k (SessionInitialized k' transport # ev) =
     (if k' = k then transport # stored_under k ev else stored_under k ev)"
| "stored_under k (e # ev) = stored_under k ev"

subsection \<open>The transport adapter\<close>

text \<open>
  An initialization POST is a POST whose header is absent or empty and whose body is an
  initialization message. An input succeeds when neither \<open>this.server.connect\<close> nor
  \<open>transport.handleRequest\<close> rejects.
\<close>

fun initialization_post :: "('b \<Rightarrow> bool) \<Rightarrow> 'b input \<Rightarrow> bool" where
  "initialization_post isInitializeRequest (POST req env) =
     (\<not> truthy_string (mcp_session_id req) \<and> isInitializeRequest (body req))"
| "initialization_post isInitializeRequest (GET req h) = False"
| "initialization_post isInitializeRequest (CLOSE transport) = False"

fun succeeds :: "'b input \<Rightarrow> bool" where
  "succeeds (POST req env) = (\<not> connect_rejects env \<and> \<not> rejects (handling env))"
| "succeeds (GET req h) = (\<not> rejects h)"
| "succeeds (CLOSE transport) = True"

text \<open>
  Modelled from the spec: the Transport Adapter, in the code the class
  \<open>StreamableHTTPServerTransport\<close> of the SDK, which is not among the sources. By the
  specification (4.2) an adapter is uninitialized only while its first request is
  handled, the request it was constructed for; there it accepts exactly one initialize
  message and on success becomes active under its new session id; an active adapter
  takes the follow-on messages and is not initialized again. So \<open>handleRequest\<close> never
  reports a session initialized on a transport that was not constructed for this
  request, and it does report one when the transport was constructed for this request
  and the request succeeds.
\<close>

definition adapter_contract :: "('b \<Rightarrow> bool) \<Rightarrow> state \<Rightarrow> 'b input \<Rightarrow> bool" where
  "adapter_contract isInitializeRequest s i =
     (if constructed (snd (step isInitializeRequest s i)) = [] then generated i = None
      else if succeeds i then generated i \<noteq> None
      else True)"

text \<open>
  Modelled from the spec: the answer that the Transport Adapter writes to \<open>res\<close>. By the
  specification (4.2 and 6) a successful initialization reports the new session id to
  the caller, as a response header, together with the initialization result:
  \<open>InitializeResult k\<close> is that response, with the header \<open>mcp-session-id: k\<close>. There is
  no answer of the adapter when the call rejects.
\<close>

datatype reply = InitializeResult string | OtherReply

definition adapter_reply :: "handled \<Rightarrow> reply option" where
  "adapter_reply h =
     (if rejects h then None
      else case sessionInitialized h of
             Some sessionId \<Rightarrow> Some (InitializeResult sessionId)
           | None \<Rightarrow> Some OtherReply)"

fun reply_to :: "'b input \<Rightarrow> reply option" where
  "reply_to (POST req env) = adapter_reply (handling env)"
| "reply_to (GET req h) = adapter_reply h"
| "reply_to (CLOSE transport) = None"

subsection \<open>Concrete inputs\<close>

text \<open>
  In the concrete requests below the body is represented by its method name, and
  \<open>isInitializeRequest\<close> by the test for the method \<open>initialize\<close>.
\<close>

definition is_initialize :: "string \<Rightarrow> bool" where
  "is_initialize method = (method = ''initialize'')"

definition example_registry :: "DispatchEntry list" where
  "example_registry =
     [\<lparr>toolName = ''linear_get_teams'', handlerRef = 0, methodName = ''handleGetTeams''\<rparr>]"

text \<open>A failed lookup of the kind that the \<open>catch\<close> clause of \<open>index.ts\<close> tests for.\<close>

definition missing_handler :: "string \<Rightarrow> thrown" where
  "missing_handler name = ErrorObj None (''No handler found for tool: '' @ name)"

definition always_throws :: "thrown \<Rightarrow> nat \<Rightarrow> string \<Rightarrow> unit \<Rightarrow> thrown + unit" where
  "always_throws error handler method arguments = Inl error"

definition uuid1 :: string where
  "uuid1 = ''123e4567-e89b-42d3-a456-426614174000''"

definition uuid2 :: string where
  "uuid2 = ''9b2c1f60-7a41-4c0e-8d5b-0f3a6e2d4c11''"

definition quiet :: handled where
  "quiet = \<lparr>sessionInitialized = None, rejects = False, headersSent = True\<rparr>"

definition calm :: environment where
  "calm = \<lparr>connect_rejects = False, handling = quiet\<rparr>"

definition reports :: "string \<Rightarrow> environment" where
  "reports sessionId =
     \<lparr>connect_rejects = False,
      handling = \<lparr>sessionInitialized = Some sessionId, rejects = False, headersSent = True\<rparr>\<rparr>"



definition with_session :: "string option \<Rightarrow> string \<Rightarrow> string Request" where
  "with_session sessionId method = \<lparr>mcp_session_id = sessionId, body = method\<rparr>"

section \<open>Properties of the dispatcher\<close>

text \<open>
  C8. For every \<open>tools/list\<close> request the answer is the list of the values of
  \<open>toolSchemas\<close> in property order. The handler takes no session state, and the answer
  is the same for every handler registry and every behaviour of the handlers.
\<close>

theorem tools_list_is_registry:
  "setupRequestHandlers toolSchemas registry failure invoke ListToolsRequest
     = (Inr (Tools (map snd toolSchemas)), [])
   \<and> setupRequestHandlers toolSchemas registry failure invoke ListToolsRequest
       = setupRequestHandlers toolSchemas registry' failure' invoke' ListToolsRequest"
  by (simp add: setupRequestHandlers_def ListTools_def Object_values_def)

lemma getHandlerForTool_unknown:
  "name \<notin> toolName ` set registry \<Longrightarrow>
   getHandlerForTool registry failure name = Inl (failure name)"
  by (auto simp: getHandlerForTool_def find_None_iff split: option.splits)

text \<open>Whatever a failed lookup throws, no handler method is invoked.\<close>

lemma unknown_tool_no_invocation:
  "name \<notin> toolName ` set registry \<Longrightarrow>
   snd (setupRequestHandlers toolSchemas registry failure invoke
          (CallToolRequest name arguments)) = []"
  by (simp add: setupRequestHandlers_def CallTool_def getHandlerForTool_unknown)

text \<open>
  A failed lookup that throws anything else leaves the handler as it is: the requirement
  on the thrown value in the property below is what the \<open>catch\<close> clause tests.
\<close>

lemma unknown_tool_other_failure:
  "name \<notin> toolName ` set registry \<Longrightarrow> \<not> no_handler_found (failure name) \<Longrightarrow>
   setupRequestHandlers toolSchemas registry failure invoke (CallToolRequest name arguments)
     = (Inl (Rethrown (failure name)), [])"
  by (simp add: setupRequestHandlers_def CallTool_def getHandlerForTool_unknown catch_clause_def)

text \<open>
  C4, as the claim states it, fails on the message. For a tool without an entry, with
  the lookup failing the way \<open>index.ts\<close> expects, the handler throws
  \<open>new McpError(ErrorCode.MethodNotFound, "Unknown tool: does_not_exist")\<close>; the message
  of that error is \<open>MCP error -32601: Unknown tool: does_not_exist\<close>, which is not
  exactly \<open>Unknown tool: does_not_exist\<close>.
\<close>

theorem unknown_tool_message_prefixed:
  "fst (setupRequestHandlers ([] :: (string \<times> unit) list) example_registry missing_handler
          (always_throws (NonError ''unused'')) (CallToolRequest ''does_not_exist'' ()))
     = Inl (McpError MethodNotFound ''Unknown tool: does_not_exist'')
   \<and> message_of (McpError MethodNotFound ''Unknown tool: does_not_exist'')
     = Some ''MCP error -32601: Unknown tool: does_not_exist''
   \<and> message_of (McpError MethodNotFound ''Unknown tool: does_not_exist'')
     \<noteq> Some ''Unknown tool: does_not_exist''"
  by (simp add: setupRequestHandlers_def CallTool_def catch_clause_def getHandlerForTool_def
      example_registry_def missing_handler_def startsWith_def McpError_message_def)

text \<open>
  C4, as the code has it. A \<open>tools/call\<close> request names a tool without an entry in the
  handler registry, and the failed lookup throws an \<open>Error\<close> whose message starts with
  \<open>No handler found\<close>. Then the handler throws an \<open>McpError\<close> of kind \<open>MethodNotFound\<close>
  built from the text \<open>Unknown tool: <name>\<close>; its message is
  \<open>MCP error -32601: Unknown tool: <name>\<close>, which ends with that text and with the
  requested name; and no handler method is invoked.
\<close>

theorem unknown_tool_method_not_found:
  "name \<notin> toolName ` set registry \<Longrightarrow> no_handler_found (failure name) \<Longrightarrow>
   setupRequestHandlers toolSchemas registry failure invoke (CallToolRequest name arguments)
     = (Inl (McpError MethodNotFound (''Unknown tool: '' @ name)), [])
   \<and> kind_of (McpError MethodNotFound (''Unknown tool: '' @ name)) = Some MethodNotFound
   \<and> message_of (McpError MethodNotFound (''Unknown tool: '' @ name))
     = Some (''MCP error -32601: Unknown tool: '' @ name)"
  by (simp add: setupRequestHandlers_def CallTool_def getHandlerForTool_unknown catch_clause_def
      McpError_message_def)

theorem unknown_tool_method_not_found_witness:
  "''does_not_exist'' \<notin> toolName ` set example_registry
   \<and> no_handler_found (missing_handler ''does_not_exist'')
   \<and> setupRequestHandlers ([] :: (string \<times> unit) list) example_registry missing_handler
       (always_throws (NonError ''unused'')) (CallToolRequest ''does_not_exist'' ())
     = (Inl (McpError MethodNotFound ''Unknown tool: does_not_exist''), [])
   \<and> message_of (McpError MethodNotFound ''Unknown tool: does_not_exist'')
     = Some ''MCP error -32601: Unknown tool: does_not_exist''"
proof -
  have h: "''does_not_exist'' \<notin> toolName ` set example_registry"
    by (simp add: example_registry_def)
  have f: "no_handler_found (missing_handler ''does_not_exist'')"
    by (simp add: missing_handler_def startsWith_def)
  show ?thesis
    using h f unknown_tool_method_not_found
      [where toolSchemas = "[] :: (string \<times> unit) list" and registry = example_registry
         and failure = missing_handler and name = "''does_not_exist''"
         and invoke = "always_throws (NonError ''unused'')" and arguments = "()", OF h f]
    by simp
qed

text \<open>
  C2, as the code has it. When the tool name resolves to a handler and the invocation
  throws, the \<open>catch\<close> clause replaces an \<open>Error\<close> whose message starts with
  \<open>No handler found\<close> by \<open>McpError(MethodNotFound, "Unknown tool: <name>")\<close> and throws
  every other value again as it is. Nothing is converted to \<open>InternalError\<close> here.
\<close>

theorem handler_error_at_boundary:
  "getHandlerForTool registry failure name = Inr (handler, method) \<Longrightarrow>
   invoke handler method arguments = Inl error \<Longrightarrow>
   setupRequestHandlers toolSchemas registry failure invoke (CallToolRequest name arguments)
     = (Inl (if no_handler_found error
             then McpError MethodNotFound (''Unknown tool: '' @ name)
             else Rethrown error),
        [(handler, method, arguments)])"
  by (simp add: setupRequestHandlers_def CallTool_def catch_clause_def)

theorem handler_error_at_boundary_witness:
  "getHandlerForTool example_registry missing_handler ''linear_get_teams''
     = Inr (0, ''handleGetTeams'') \<and>
   always_throws (ErrorObj (Some InvalidRequest) ''bad team'') 0 ''handleGetTeams'' ()
     = Inl (ErrorObj (Some InvalidRequest) ''bad team'') \<and>
   setupRequestHandlers ([] :: (string \<times> unit) list) example_registry missing_handler
       (always_throws (ErrorObj (Some InvalidRequest) ''bad team''))
       (CallToolRequest ''linear_get_teams'' ())
     = (Inl (Rethrown (ErrorObj (Some InvalidRequest) ''bad team'')),
        [(0, ''handleGetTeams'', ())])"
proof -
  have r: "getHandlerForTool example_registry missing_handler ''linear_get_teams''
      = Inr (0, ''handleGetTeams'')"
    by (simp add: getHandlerForTool_def example_registry_def)
  have t: "always_throws (ErrorObj (Some InvalidRequest) ''bad team'') 0 ''handleGetTeams'' ()
     = Inl (ErrorObj (Some InvalidRequest) ''bad team'')"
    by (simp add: always_throws_def)
  show ?thesis
    using r t handler_error_at_boundary
      [where invoke = "always_throws (ErrorObj (Some InvalidRequest) ''bad team'')"
         and toolSchemas = "[] :: (string \<times> unit) list", OF r t]
    by (simp add: startsWith_def)
qed

text \<open>
  C2, as the claim states it, fails: a handler that throws a plain \<open>Error\<close> makes the
  \<open>tools/call\<close> handler throw that same untyped value, not an \<open>InternalError\<close>.
\<close>

theorem handler_error_rethrown_raw:
  "fst (setupRequestHandlers ([] :: (string \<times> unit) list) example_registry missing_handler
          (always_throws (ErrorObj None ''boom'')) (CallToolRequest ''linear_get_teams'' ()))
     = Inl (Rethrown (ErrorObj None ''boom''))
   \<and> kind_of (Rethrown (ErrorObj None ''boom'')) = None"
  by (simp add: setupRequestHandlers_def CallTool_def catch_clause_def getHandlerForTool_def
      example_registry_def always_throws_def startsWith_def)

section \<open>Properties of the session registry and the routes\<close>

lemma stored_under_append:
  "stored_under k (xs @ ys) = stored_under k xs @ stored_under k ys"
  by (induction k xs rule: stored_under.induct) auto

lemma handled_by_append:
  "handled_by (xs @ ys) = handled_by xs @ handled_by ys"
  by (induction xs rule: handled_by.induct) auto

lemma responses_append:
  "responses (xs @ ys) = responses xs @ responses ys"
  by (induction xs rule: responses.induct) auto

lemma constructed_append:
  "constructed (xs @ ys) = constructed xs @ constructed ys"
  by (induction xs rule: constructed.induct) auto

lemma run_Cons_fst:
  "fst (run isInit s (i # inputs)) = fst (run isInit (fst (step isInit s i)) inputs)"
  by (simp split: prod.splits)

lemma run_Cons_snd:
  "snd (run isInit s (i # inputs)) =
     snd (step isInit s i) @ snd (run isInit (fst (step isInit s i)) inputs)"
  by (simp split: prod.splits)

lemma step_keeps_entry:
  assumes "transports s k = Some t" and "generated i \<noteq> Some k"
  shows "transports (fst (step isInit s i)) k = Some t"
proof (cases i)
  case (POST req env)
  with assms show ?thesis
    by (auto simp: post_mcp_def try_block_def handleRequest_def Let_def
        split: option.splits js_value.splits completion.splits prod.splits if_splits)
next
  case (GET req h)
  with assms show ?thesis
    by (auto simp: get_mcp_def handleRequest_def Let_def
        split: option.splits js_value.splits completion.splits prod.splits if_splits)
next
  case (CLOSE x)
  with assms show ?thesis by (simp add: transport_closes_def)
qed

lemma step_new_entry:
  assumes "transports (fst (step isInit s i)) k = Some t"
  shows "transports s k = Some t \<or> generated i = Some k"
proof (cases i)
  case (POST req env)
  with assms show ?thesis
    by (auto simp: post_mcp_def try_block_def handleRequest_def Let_def
        split: option.splits js_value.splits completion.splits prod.splits if_splits)
next
  case (GET req h)
  with assms show ?thesis
    by (auto simp: get_mcp_def handleRequest_def Let_def
        split: option.splits js_value.splits completion.splits prod.splits if_splits)
next
  case (CLOSE x)
  with assms show ?thesis by (simp add: transport_closes_def)
qed

lemma step_stored_under:
  assumes "generated i \<noteq> Some k"
  shows "stored_under k (snd (step isInit s i)) = []"
proof (cases i)
  case (POST req env)
  with assms show ?thesis
    by (auto simp: post_mcp_def try_block_def handleRequest_def Let_def catch_block_def
        stored_under_append
        split: option.splits js_value.splits completion.splits prod.splits if_splits)
next
  case (GET req h)
  with assms show ?thesis
    by (auto simp: get_mcp_def handleRequest_def Let_def stored_under_append
        split: option.splits js_value.splits completion.splits prod.splits if_splits)
next
  case (CLOSE x)
  with assms show ?thesis by (simp add: transport_closes_def)
qed

lemma contract_not_generated:
  "randomUUID_contract s i \<Longrightarrow> transports s k = Some t \<Longrightarrow> generated i \<noteq> Some k"
  by (auto simp: randomUUID_contract_def split: option.splits)

lemma run_keeps_entry:
  "fresh_ids isInit s inputs \<Longrightarrow> transports s k = Some t \<Longrightarrow>
   transports (fst (run isInit s inputs)) k = Some t \<and>
   stored_under k (snd (run isInit s inputs)) = []"
proof (induction inputs arbitrary: s)
  case Nil
  then show ?case by simp
next
  case (Cons i inputs)
  from Cons.prems have c: "randomUUID_contract s i"
    and f: "fresh_ids isInit (fst (step isInit s i)) inputs" by simp_all
  from c Cons.prems(2) have g: "generated i \<noteq> Some k" by (rule contract_not_generated)
  from step_keeps_entry [OF Cons.prems(2) g]
  have k: "transports (fst (step isInit s i)) k = Some t" .
  from Cons.IH [OF f k] step_stored_under [OF g, of isInit s]
  show ?case by (simp add: run_Cons_fst run_Cons_snd stored_under_append del: run.simps)
qed

lemma fresh_ids_append:
  "fresh_ids isInit s (xs @ ys) =
     (fresh_ids isInit s xs \<and> fresh_ids isInit (fst (run isInit s xs)) ys)"
  by (induction xs arbitrary: s) (auto simp: run_Cons_fst simp del: run.simps(2))

lemma run_keys_36:
  "fresh_ids isInit s inputs \<Longrightarrow> (\<And>k t. transports s k = Some t \<Longrightarrow> length k = 36) \<Longrightarrow>
   transports (fst (run isInit s inputs)) k = Some t \<Longrightarrow> length k = 36"
proof (induction inputs arbitrary: s)
  case Nil
  then show ?case by simp
next
  case (Cons i inputs)
  from Cons.prems(1) have c: "randomUUID_contract s i"
    and f: "fresh_ids isInit (fst (step isInit s i)) inputs" by simp_all
  have inv: "\<And>k t. transports (fst (step isInit s i)) k = Some t \<Longrightarrow> length k = 36"
  proof -
    fix k' t'
    assume "transports (fst (step isInit s i)) k' = Some t'"
    then have "transports s k' = Some t' \<or> generated i = Some k'" by (rule step_new_entry)
    then show "length k' = 36"
      using c Cons.prems(2) by (auto simp: randomUUID_contract_def)
  qed
  from Cons.prems(3)
  have "transports (fst (run isInit (fst (step isInit s i)) inputs)) k = Some t"
    by (simp add: run_Cons_fst del: run.simps)
  from Cons.IH [OF f inv this] show ?case .
qed

lemma post_known_session:
  assumes "transports s k = Some t" and "k \<noteq> []"
  shows "handled_by (snd (post_mcp isInit s \<lparr>mcp_session_id = Some k, body = b\<rparr> env)) = [t]"
  using assms
  by (auto simp: post_mcp_def try_block_def handleRequest_def get_property_def catch_block_def
      handled_by_append split: option.splits completion.splits)

text \<open>
  C1. Take a run of the server from its start in which \<open>randomUUID\<close> keeps its contract,
  and a session id stored in the registry at some moment of the run. A POST carrying
  that id is handed to the transport stored under it, at that moment and at any later
  moment of the run; the property is never assigned again, so it holds the same
  transport object throughout.
\<close>

theorem same_session_same_transport:
  assumes "fresh_ids isInit initial (before @ between)"
    and "transports (fst (run isInit initial before)) sessionId = Some transport"
  shows "handled_by (snd (post_mcp isInit (fst (run isInit initial before))
            \<lparr>mcp_session_id = Some sessionId, body = b1\<rparr> env1)) = [transport]
      \<and> handled_by (snd (post_mcp isInit
            (fst (run isInit (fst (run isInit initial before)) between))
            \<lparr>mcp_session_id = Some sessionId, body = b2\<rparr> env2)) = [transport]
      \<and> transports (fst (run isInit (fst (run isInit initial before)) between)) sessionId
          = Some transport
      \<and> stored_under sessionId (snd (run isInit (fst (run isInit initial before)) between))
          = []"
proof -
  let ?s1 = "fst (run isInit initial before)"
  from assms(1) have f1: "fresh_ids isInit initial before"
    and f2: "fresh_ids isInit ?s1 between"
    by (simp_all add: fresh_ids_append)
  have "length sessionId = 36"
    using run_keys_36 [OF f1 _ assms(2)] by (simp add: initial_def)
  then have ne: "sessionId \<noteq> []" by auto
  from run_keeps_entry [OF f2 assms(2)]
  have keep: "transports (fst (run isInit ?s1 between)) sessionId = Some transport"
    and once: "stored_under sessionId (snd (run isInit ?s1 between)) = []" by simp_all
  show ?thesis
    using post_known_session [OF assms(2) ne, of isInit b1 env1]
      post_known_session [OF keep ne, of isInit b2 env2] keep once
    by simp
qed

lemmas concrete_defs =
  post_mcp_def try_block_def handleRequest_def get_property_def catch_block_def get_mcp_def
  transport_closes_def initial_def is_initialize_def uuid1_def uuid2_def quiet_def calm_def
  reports_def with_session_def Object_prototype_def randomUUID_contract_def Let_def

theorem same_session_same_transport_witness:
  "fresh_ids is_initialize initial
     ([POST (with_session None ''initialize'') (reports uuid1)]
      @ [POST (with_session (Some uuid1) ''tools/list'') calm, CLOSE 0,
         POST (with_session None ''initialize'') (reports uuid2)])
   \<and> transports (fst (run is_initialize initial
         [POST (with_session None ''initialize'') (reports uuid1)])) uuid1 = Some 0
   \<and> handled_by (snd (post_mcp is_initialize
         (fst (run is_initialize initial
            [POST (with_session None ''initialize'') (reports uuid1)]))
         \<lparr>mcp_session_id = Some uuid1, body = ''tools/list''\<rparr> calm)) = [0]
   \<and> handled_by (snd (post_mcp is_initialize
         (fst (run is_initialize
            (fst (run is_initialize initial
               [POST (with_session None ''initialize'') (reports uuid1)]))
            [POST (with_session (Some uuid1) ''tools/list'') calm, CLOSE 0,
             POST (with_session None ''initialize'') (reports uuid2)]))
         \<lparr>mcp_session_id = Some uuid1, body = ''tools/call''\<rparr> calm)) = [0]"
proof -
  have f: "fresh_ids is_initialize initial
     ([POST (with_session None ''initialize'') (reports uuid1)]
      @ [POST (with_session (Some uuid1) ''tools/list'') calm, CLOSE 0,
         POST (with_session None ''initialize'') (reports uuid2)])"
    by (simp add: concrete_defs)
  have t: "transports (fst (run is_initialize initial
         [POST (with_session None ''initialize'') (reports uuid1)])) uuid1 = Some 0"
    by (simp add: concrete_defs)
  show ?thesis
    using f t
      same_session_same_transport [OF f t, of "''tools/list''" calm "''tools/call''" calm]
    by simp
qed

subsection \<open>Closed sessions\<close>

text \<open>
  C3, as the claim states it, fails: after a session is initialised and its transport
  closes, the registry still holds the entry of the closed session.
\<close>

theorem closed_session_retained:
  "transports (fst (run is_initialize initial
      [POST (with_session None ''initialize'') (reports uuid1), CLOSE 0])) uuid1 = Some 0
   \<and> 0 \<in> closed (fst (run is_initialize initial
      [POST (with_session None ''initialize'') (reports uuid1), CLOSE 0]))"
  by (simp add: concrete_defs)

lemma step_dom:
  assumes "transports s k \<noteq> None"
  shows "transports (fst (step isInit s i)) k \<noteq> None"
proof (cases i)
  case (POST req env)
  with assms show ?thesis
    by (auto simp: post_mcp_def try_block_def handleRequest_def Let_def
        split: option.splits js_value.splits completion.splits prod.splits if_splits)
next
  case (GET req h)
  with assms show ?thesis
    by (auto simp: get_mcp_def handleRequest_def Let_def
        split: option.splits js_value.splits completion.splits prod.splits if_splits)
next
  case (CLOSE x)
  with assms show ?thesis by (simp add: transport_closes_def)
qed

lemma run_dom:
  "transports s k \<noteq> None \<Longrightarrow> transports (fst (run isInit s inputs)) k \<noteq> None"
proof (induction inputs arbitrary: s)
  case Nil
  then show ?case by simp
next
  case (Cons i inputs)
  from Cons.IH [OF step_dom [OF Cons.prems]] show ?case
    by (simp add: run_Cons_fst del: run.simps)
qed

text \<open>
  C3, as the code has it. When the transport of a stored session closes, the entry
  stays in the registry, and no later request or close removes it: the registry never
  loses a session id.
\<close>

theorem registry_never_shrinks:
  "transports s sessionId = Some transport \<Longrightarrow>
   transports (fst (transport_closes s transport)) sessionId = Some transport
   \<and> transport \<in> closed (fst (transport_closes s transport))
   \<and> sessionId \<in> dom (transports (fst (run isInit s inputs)))"
  using run_dom [of s sessionId isInit inputs]
  by (auto simp: transport_closes_def)

theorem registry_never_shrinks_witness:
  "transports (fst (post_mcp is_initialize initial (with_session None ''initialize'')
      (reports uuid1))) uuid1 = Some 0
   \<and> 0 \<in> closed (fst (transport_closes
        (fst (post_mcp is_initialize initial (with_session None ''initialize'')
           (reports uuid1))) 0))
   \<and> uuid1 \<in> dom (transports (fst (run is_initialize
        (fst (post_mcp is_initialize initial (with_session None ''initialize'')
           (reports uuid1)))
        [CLOSE 0, GET (with_session (Some uuid1) '''') quiet])))"
proof -
  have h: "transports (fst (post_mcp is_initialize initial (with_session None ''initialize'')
      (reports uuid1))) uuid1 = Some 0"
    by (simp add: concrete_defs)
  show ?thesis
    using h registry_never_shrinks [OF h, of is_initialize
        "[CLOSE 0, GET (with_session (Some uuid1) '''') quiet]"]
    by simp
qed

subsection \<open>Requests without a valid session\<close>

text \<open>
  Where both routes answer 400: the header is absent or empty, or the lookup in
  \<open>transports\<close> yields \<open>undefined\<close>, that is, the header names neither a stored session
  nor a property of \<open>Object.prototype\<close>.
\<close>

lemma post_without_session_400:
  assumes "\<not> isInit (body req)"
    and "\<not> truthy (transports_at (transports s) (mcp_session_id req))"
  shows "post_mcp isInit s req env
     = (s, [Respond 400 (JsonRpcError ''2.0'' (- 32000)
              ''Bad Request: No valid session ID provided'' None)])"
  using assms by (simp add: post_mcp_def try_block_def Let_def)

lemma get_without_session_400:
  assumes "\<not> truthy (transports_at (transports s) (mcp_session_id req))"
  shows "get_mcp s req h = (s, [Respond 400 (PlainText ''Invalid or missing session ID'')])"
  using assms by (simp add: get_mcp_def Let_def)

lemma get_known_session:
  assumes "transports s k = Some t" and "k \<noteq> []"
  shows "handled_by (snd (get_mcp s \<lparr>mcp_session_id = Some k, body = b\<rparr> h)) = [t]
    \<and> responses (snd (get_mcp s \<lparr>mcp_session_id = Some k, body = b\<rparr> h)) = []"
  using assms
  by (auto simp: get_mcp_def handleRequest_def get_property_def handled_by_append
      responses_append Let_def split: option.splits completion.splits)

text \<open>
  C5 at the header value \<open>constructor\<close>. No session is stored and the body is not an
  initialization message, yet \<open>this.transports['constructor']\<close> is the inherited
  function \<open>Object\<close>, which is truthy: the route takes the branch for an existing
  session, the call of \<open>handleRequest\<close> on that value throws, and the answer is 500 with
  code -32603 instead of 400 with code -32000.
\<close>

theorem post_inherited_name_answered_500:
  "post_mcp is_initialize initial (with_session (Some ''constructor'') ''tools/list'') calm
     = (initial, [Respond 500 (JsonRpcError ''2.0'' (- 32603) ''Internal server error'' None)])"
  by (simp add: concrete_defs)

text \<open>
  C6 at the header value \<open>constructor\<close>. No session is stored, yet the test
  \<open>!this.transports[sessionId]\<close> is false for the inherited function, the route goes on
  to call \<open>handleRequest\<close> on it, and the exception leaves the route: no 400 is written.
\<close>

theorem get_inherited_name_unanswered:
  "get_mcp initial (with_session (Some ''constructor'') '''') quiet = (initial, [Unhandled])"
  by (simp add: concrete_defs)

text \<open>
  C10, as the claim states it, fails: a POST that carries the header with an empty
  value, which names no session, and an initialization body is not rejected; a
  transport is constructed and the new session is stored.
\<close>

theorem empty_header_not_rejected:
  "post_mcp is_initialize initial (with_session (Some '''') ''initialize'') (reports uuid2)
     = (initial\<lparr>allocated := 1, transports := [uuid2 \<mapsto> 0]\<rparr>,
        [Constructed 0, Connect 0, HandleRequest 0, SessionInitialized uuid2 0])"
  by (simp add: concrete_defs)

text \<open>
  C10, as the code has it. A POST whose header is a non-empty string that names neither
  a stored session nor a property of \<open>Object.prototype\<close> is answered 400 with code
  -32000, whatever its body, also an initialization message; the state is unchanged, so
  no session is created and no transport handles the request.
\<close>

theorem unknown_session_rejected:
  assumes "mcp_session_id req = Some k" and "k \<noteq> []"
    and "transports s k = None" and "k \<notin> set Object_prototype"
  shows "post_mcp isInit s req env
     = (s, [Respond 400 (JsonRpcError ''2.0'' (- 32000)
              ''Bad Request: No valid session ID provided'' None)])"
  using assms by (simp add: post_mcp_def try_block_def get_property_def Let_def)

theorem unknown_session_rejected_witness:
  "mcp_session_id (with_session (Some ''not-a-real-id'') ''initialize'') = Some ''not-a-real-id''
   \<and> ''not-a-real-id'' \<noteq> [] \<and> transports initial ''not-a-real-id'' = None
   \<and> ''not-a-real-id'' \<notin> set Object_prototype
   \<and> post_mcp is_initialize initial (with_session (Some ''not-a-real-id'') ''initialize'')
        (reports uuid1)
     = (initial, [Respond 400 (JsonRpcError ''2.0'' (- 32000)
                    ''Bad Request: No valid session ID provided'' None)])"
proof -
  have a: "mcp_session_id (with_session (Some ''not-a-real-id'') ''initialize'')
      = Some ''not-a-real-id''"
    by (simp add: with_session_def)
  have b: "''not-a-real-id'' \<noteq> []" by simp
  have c: "transports initial ''not-a-real-id'' = None" by (simp add: initial_def)
  have d: "''not-a-real-id'' \<notin> set Object_prototype" by (simp add: Object_prototype_def)
  show ?thesis
    using a b c d unknown_session_rejected [OF a b c d, of is_initialize "reports uuid1"]
    by simp
qed

subsection \<open>Minting a session\<close>

lemma post_constructed:
  "constructed (snd (post_mcp isInit s req env)) =
     (if \<not> truthy_string (mcp_session_id req) \<and> isInit (body req) then [allocated s] else [])"
  by (auto simp: post_mcp_def try_block_def handleRequest_def catch_block_def
      constructed_append Let_def
      split: option.splits js_value.splits completion.splits prod.splits)

lemma get_constructed:
  "constructed (snd (get_mcp s req h)) = []"
  by (auto simp: get_mcp_def handleRequest_def constructed_append Let_def
      split: option.splits js_value.splits completion.splits prod.splits)

lemma step_constructed:
  "constructed (snd (step isInit s i)) =
     (if initialization_post isInit i then [allocated s] else [])"
  by (cases i) (simp_all add: post_constructed get_constructed transport_closes_def)

lemma step_not_generated:
  assumes "generated i = None"
  shows "transports (fst (step isInit s i)) = transports s"
proof (cases i)
  case (POST req env)
  with assms show ?thesis
    by (auto simp: post_mcp_def try_block_def handleRequest_def Let_def
        split: option.splits js_value.splits completion.splits prod.splits if_splits)
next
  case (GET req h)
  with assms show ?thesis
    by (auto simp: get_mcp_def handleRequest_def Let_def
        split: option.splits js_value.splits completion.splits prod.splits if_splits)
next
  case (CLOSE x)
  then show ?thesis by (simp add: transport_closes_def)
qed

lemma minted_only_by_initialization:
  assumes "adapter_contract isInit s i"
    and "transports (fst (step isInit s i)) \<noteq> transports s"
  shows "initialization_post isInit i"
proof (rule ccontr)
  assume "\<not> initialization_post isInit i"
  then have "constructed (snd (step isInit s i)) = []" by (simp add: step_constructed)
  with assms(1) have "generated i = None" by (simp add: adapter_contract_def)
  then have "transports (fst (step isInit s i)) = transports s" by (rule step_not_generated)
  with assms(2) show False by simp
qed

lemma initialization_mints:
  assumes "adapter_contract isInit s i" and "randomUUID_contract s i"
    and "initialization_post isInit i" and "succeeds i"
  shows "\<exists>sessionId. generated i = Some sessionId
           \<and> length sessionId = 36 \<and> transports s sessionId = None
           \<and> step isInit s i =
               (s\<lparr>allocated := Suc (allocated s),
                  transports := (transports s)(sessionId \<mapsto> allocated s)\<rparr>,
                [Constructed (allocated s), Connect (allocated s), HandleRequest (allocated s),
                 SessionInitialized sessionId (allocated s)])
           \<and> reply_to i = Some (InitializeResult sessionId)
           \<and> handled_by (snd (post_mcp isInit (fst (step isInit s i))
                 \<lparr>mcp_session_id = Some sessionId, body = b\<rparr> env')) = [allocated s]"
proof -
  from assms(3) obtain req env where i: "i = POST req env"
    and hdr: "\<not> truthy_string (mcp_session_id req)" and init: "isInit (body req)"
    by (cases i) auto
  from assms(4) i have ok: "\<not> connect_rejects env" "\<not> rejects (handling env)" by simp_all
  from assms(3) have "constructed (snd (step isInit s i)) \<noteq> []" by (simp add: step_constructed)
  with assms(1,4) have "generated i \<noteq> None" by (simp add: adapter_contract_def)
  then obtain k where k: "sessionInitialized (handling env) = Some k" using i by auto
  with assms(2) i have fresh: "length k = 36" "transports s k = None"
    by (simp_all add: randomUUID_contract_def)
  have st: "step isInit s i =
      (s\<lparr>allocated := Suc (allocated s), transports := (transports s)(k \<mapsto> allocated s)\<rparr>,
       [Constructed (allocated s), Connect (allocated s), HandleRequest (allocated s),
        SessionInitialized k (allocated s)])"
    using i hdr init ok k by (simp add: post_mcp_def try_block_def handleRequest_def Let_def)
  have ne: "k \<noteq> []" using fresh(1) by auto
  have stored: "transports (fst (step isInit s i)) k = Some (allocated s)"
    by (simp add: st)
  have route: "handled_by (snd (post_mcp isInit (fst (step isInit s i))
                 \<lparr>mcp_session_id = Some k, body = b\<rparr> env')) = [allocated s]"
    by (rule post_known_session [OF stored ne])
  have rep: "reply_to i = Some (InitializeResult k)"
    using i ok k by (simp add: adapter_reply_def)
  from k i fresh st rep route show ?thesis by auto
qed

text \<open>
  C7, as the claim states it, fails: a POST that carries the header with an empty value
  and an initialization body constructs a transport and stores the new session.
\<close>

theorem empty_header_mints_session:
  "mcp_session_id (with_session (Some '''') ''initialize'') = Some ''''
   \<and> constructed (snd (post_mcp is_initialize initial
        (with_session (Some '''') ''initialize'') (reports uuid1))) = [0]
   \<and> transports (fst (post_mcp is_initialize initial
        (with_session (Some '''') ''initialize'') (reports uuid1))) uuid1 = Some 0"
  by (simp add: concrete_defs)

text \<open>
  C7, with the header absent or empty. Let the transports behave as the Transport
  Adapter of the specification and \<open>randomUUID\<close> keep its contract. Then a request or a
  close changes the registry only if it is a POST whose header is absent or empty and
  whose body is an initialization message. When such a POST succeeds, a transport is
  constructed, connected to the server and then handed the request, in this order; it
  is stored in the registry under the id that its generator returned, a string of 36
  characters that named no session before; the answer to the caller is the
  initialization result with that id as its session header; and a later POST that
  carries that id is handed to the new transport.
\<close>

theorem session_minted_on_initialize:
  assumes "adapter_contract isInit s i" and "randomUUID_contract s i"
  shows "(transports (fst (step isInit s i)) \<noteq> transports s \<longrightarrow> initialization_post isInit i)
       \<and> (initialization_post isInit i \<and> succeeds i \<longrightarrow>
            (\<exists>sessionId. generated i = Some sessionId
               \<and> length sessionId = 36 \<and> transports s sessionId = None
               \<and> step isInit s i =
                   (s\<lparr>allocated := Suc (allocated s),
                      transports := (transports s)(sessionId \<mapsto> allocated s)\<rparr>,
                    [Constructed (allocated s), Connect (allocated s),
                     HandleRequest (allocated s), SessionInitialized sessionId (allocated s)])
               \<and> reply_to i = Some (InitializeResult sessionId)
               \<and> handled_by (snd (post_mcp isInit (fst (step isInit s i))
                     \<lparr>mcp_session_id = Some sessionId, body = b\<rparr> env')) = [allocated s]))"
  using minted_only_by_initialization [OF assms(1)] initialization_mints [OF assms, of b env']
  by blast

theorem session_minted_on_initialize_witness:
  "adapter_contract is_initialize initial (POST (with_session None ''initialize'') (reports uuid1))
   \<and> randomUUID_contract initial (POST (with_session None ''initialize'') (reports uuid1))
   \<and> initialization_post is_initialize (POST (with_session None ''initialize'') (reports uuid1))
   \<and> succeeds (POST (with_session None ''initialize'') (reports uuid1))
   \<and> transports (fst (step is_initialize initial
        (POST (with_session None ''initialize'') (reports uuid1)))) \<noteq> transports initial
   \<and> step is_initialize initial (POST (with_session None ''initialize'') (reports uuid1))
       = (initial\<lparr>allocated := 1, transports := [uuid1 \<mapsto> 0]\<rparr>,
          [Constructed 0, Connect 0, HandleRequest 0, SessionInitialized uuid1 0])
   \<and> reply_to (POST (with_session None ''initialize'') (reports uuid1))
       = Some (InitializeResult uuid1)
   \<and> handled_by (snd (post_mcp is_initialize
        (fst (step is_initialize initial
           (POST (with_session None ''initialize'') (reports uuid1))))
        \<lparr>mcp_session_id = Some uuid1, body = ''tools/list''\<rparr> calm)) = [0]"
proof -
  let ?i = "POST (with_session None ''initialize'') (reports uuid1)"
  have a: "adapter_contract is_initialize initial ?i"
    by (simp add: adapter_contract_def concrete_defs)
  have b: "randomUUID_contract initial ?i"
    by (simp add: concrete_defs)
  have c: "initialization_post is_initialize ?i" and d: "succeeds ?i"
    by (simp_all add: concrete_defs)
  have g: "generated ?i = Some uuid1" by (simp add: reports_def)
  have ch: "transports (fst (step is_initialize initial ?i)) \<noteq> transports initial"
  proof
    assume "transports (fst (step is_initialize initial ?i)) = transports initial"
    then have "transports (fst (step is_initialize initial ?i)) uuid1 = transports initial uuid1"
      by simp
    then show False by (simp add: concrete_defs)
  qed
  have z: "allocated initial = 0" "transports initial = Map.empty"
    by (simp_all add: initial_def)
  show ?thesis
    using a b c d g ch z
      session_minted_on_initialize [OF a b, of "''tools/list''" calm]
    by auto
qed

subsection \<open>Faults\<close>




end
